theory Spec2Isabelle
  imports Main "HOL-Library.Sublist"
begin

section \<open>JavaScript values\<close>

text \<open>
  A JavaScript string is a sequence of UTF-16 code units: \<open>length\<close> counts them,
  \<open>slice\<close> cuts between them (also inside a surrogate pair) and a regular expression
  without the \<open>u\<close> flag matches them one by one. A string is therefore a list of code
  units, each a number (below 65536 in every string JavaScript can hold). The literals of
  the source are ASCII; \<open>lit\<close> gives the code units of one.
\<close>

type_synonym jstring = "nat list"

definition lit :: "string \<Rightarrow> jstring" where
  "lit s = map of_char s"

text \<open>
  The client is JavaScript: state variables, request bodies and parsed responses are
  dynamically typed. A value is \<open>undefined\<close>, \<open>null\<close>, a boolean, a number, a string,
  an array or an object (a list of fields; the first binding of a key is the one read;
  the keys this client reads are ASCII names). Numbers are the integers among the JSON
  numbers.
\<close>

datatype js =
    JUndefined
  | JNull
  | JBool bool
  | JNum int
  | JStr jstring
  | JArr "js list"
  | JObj "(string \<times> js) list"

text \<open>What \<open>if (v)\<close>, \<open>!v\<close> and \<open>v || w\<close> test.\<close>

fun truthy :: "js \<Rightarrow> bool" where
  "truthy JUndefined = False"
| "truthy JNull = False"
| "truthy (JBool b) = b"
| "truthy (JNum n) = (n \<noteq> 0)"
| "truthy (JStr s) = (s \<noteq> [])"
| "truthy (JArr xs) = True"
| "truthy (JObj fs) = True"

text \<open>\<open>a || b\<close> on values already computed.\<close>

definition js_or :: "js \<Rightarrow> js \<Rightarrow> js" where
  "js_or a b = (if truthy a then a else b)"

text \<open>\<open>s || d\<close> where \<open>s\<close> is a string state variable and \<open>d\<close> a string literal.\<close>

definition str_or :: "jstring \<Rightarrow> jstring \<Rightarrow> jstring" where
  "str_or s d = (if s \<noteq> [] then s else d)"

text \<open>A thrown value: the name of its class and its \<open>message\<close>.\<close>

datatype js_error = Thrown (err_name: string) (message: jstring)

definition field :: "(string \<times> js) list \<Rightarrow> string \<Rightarrow> js" where
  "field fs k = (case map_of fs k of None \<Rightarrow> JUndefined | Some v \<Rightarrow> v)"

definition deref_message :: "string \<Rightarrow> string \<Rightarrow> jstring" where
  "deref_message base k =
     lit (''Cannot read properties of '' @ base @ '' (reading '' @ [CHR 0x27] @ k @ [CHR 0x27] @ '')'')"

text \<open>
  Property read \<open>v.k\<close> for the data keys this client reads. On \<open>null\<close> and
  \<open>undefined\<close> it throws a TypeError (the text of the message is the engine's); strings
  and arrays have a \<open>length\<close>; every other read of a missing property is \<open>undefined\<close>.
\<close>

fun getp :: "js \<Rightarrow> string \<Rightarrow> js_error + js" where
  "getp JUndefined k = Inl (Thrown ''TypeError'' (deref_message ''undefined'' k))"
| "getp JNull k = Inl (Thrown ''TypeError'' (deref_message ''null'' k))"
| "getp (JObj fs) k = Inr (field fs k)"
| "getp (JStr s) k = Inr (if k = ''length'' then JNum (int (length s)) else JUndefined)"
| "getp (JArr xs) k = Inr (if k = ''length'' then JNum (int (length xs)) else JUndefined)"
| "getp (JBool b) k = Inr JUndefined"
| "getp (JNum n) k = Inr JUndefined"

text \<open>Optional chaining \<open>v?.k\<close>: \<open>undefined\<close> on \<open>null\<close> and \<open>undefined\<close>, never throws.\<close>

definition getp_opt :: "js \<Rightarrow> string \<Rightarrow> js" where
  "getp_opt v k = (case getp v k of Inl e \<Rightarrow> JUndefined | Inr x \<Rightarrow> x)"

subsection \<open>Conversion to strings\<close>

definition digit_char :: "nat \<Rightarrow> nat" where
  "digit_char d = lit ''0123456789'' ! d"

fun show_nat :: "nat \<Rightarrow> jstring" where
  "show_nat n = (if n < 10 then [digit_char n] else show_nat (n div 10) @ [digit_char (n mod 10)])"

declare show_nat.simps [simp del]

definition show_int :: "int \<Rightarrow> jstring" where
  "show_int i = (if i < 0 then lit ''-'' @ show_nat (nat (- i)) else show_nat (nat i))"

fun join_comma :: "jstring list \<Rightarrow> jstring" where
  "join_comma [] = []"
| "join_comma [x] = x"
| "join_comma (x # y # ys) = x @ lit '','' @ join_comma (y # ys)"

text \<open>
  What a template literal \<open>`${v}`\<close> inserts: the string itself, the decimal digits of a
  number, the elements of an array joined by commas (\<open>null\<close> and \<open>undefined\<close> elements
  are empty there), \<open>[object Object]\<close> for an object.
\<close>

fun to_string :: "js \<Rightarrow> jstring" where
  "to_string JUndefined = lit ''undefined''"
| "to_string JNull = lit ''null''"
| "to_string (JBool b) = (if b then (lit ''true'') else (lit ''false''))"
| "to_string (JNum n) = show_int n"
| "to_string (JStr s) = s"
| "to_string (JArr xs) =
     join_comma (map (\<lambda>x. if x = JNull \<or> x = JUndefined then [] else to_string x) xs)"
| "to_string (JObj fs) = lit ''[object Object]''"

section \<open>Computations: effects in order, and a result or a thrown error\<close>

text \<open>
  A handler runs setter calls, console output and backend calls in a fixed order
  and either completes or throws. A computation is the list of effects it performed, in
  order, and its outcome. The type of state writes is a parameter: each of the two
  versions of the client has its own state.
\<close>

record request =
  url :: jstring
  http_method :: jstring
  headers :: "(jstring \<times> jstring) list"
  body :: "js option"

datatype 'w effect =
    Write 'w
  | Call request
  | ConsoleError js_error

type_synonym ('w, 'a) comp = "'w effect list \<times> (js_error + 'a)"

definition ret :: "'a \<Rightarrow> ('w, 'a) comp" where
  "ret x = ([], Inr x)"

definition throw :: "js_error \<Rightarrow> ('w, 'a) comp" where
  "throw e = ([], Inl e)"

definition emit :: "'w effect \<Rightarrow> ('w, unit) comp" where
  "emit x = ([x], Inr ())"

definition lift :: "js_error + 'a \<Rightarrow> ('w, 'a) comp" where
  "lift r = ([], r)"

text \<open>Sequencing: the second part runs only if the first did not throw.\<close>

definition bindc :: "('w, 'a) comp \<Rightarrow> ('a \<Rightarrow> ('w, 'b) comp) \<Rightarrow> ('w, 'b) comp" where
  "bindc m f =
     (case m of
        (es, Inl e) \<Rightarrow> (es, Inl e)
      | (es, Inr x) \<Rightarrow> (case f x of (es', r) \<Rightarrow> (es @ es', r)))"

text \<open>\<open>try { m } catch (e) { h e }\<close>\<close>

definition try_catch :: "('w, 'a) comp \<Rightarrow> (js_error \<Rightarrow> ('w, 'a) comp) \<Rightarrow> ('w, 'a) comp" where
  "try_catch m h =
     (case m of
        (es, Inl e) \<Rightarrow> (case h e of (es', r) \<Rightarrow> (es @ es', r))
      | (es, Inr x) \<Rightarrow> (es, Inr x))"

text \<open>\<open>try { m } finally { f }\<close>: \<open>f\<close> always runs; the outcome is that of \<open>m\<close> unless \<open>f\<close> throws.\<close>

definition try_finally :: "('w, 'a) comp \<Rightarrow> ('w, unit) comp \<Rightarrow> ('w, 'a) comp" where
  "try_finally m f =
     (case m of (es, r) \<Rightarrow>
        (case f of
           (es', Inl e') \<Rightarrow> (es @ es', Inl e')
         | (es', Inr u) \<Rightarrow> (es @ es', r)))"

text \<open>Short-circuit \<open>a || b\<close> where evaluating either side may throw.\<close>

definition or_else :: "('w, js) comp \<Rightarrow> ('w, js) comp \<Rightarrow> ('w, js) comp" where
  "or_else a b = bindc a (\<lambda>x. if truthy x then ret x else b)"

section \<open>The environment: configuration and backend\<close>

text \<open>
  A response has a status and the outcome of reading its body as JSON (\<open>res.json()\<close>
  rejects on a body that is not JSON). \<open>fetch\<close> rejects on a transport failure and
  resolves with a response otherwise, whatever the status.
\<close>

record response =
  status :: nat
  json :: "js_error + js"

datatype fetch_outcome = Rejected js_error | Resolved response

record env =
  VITE_API_BASE :: "jstring option"
  server :: "request \<Rightarrow> fetch_outcome"

text \<open>\<open>res.ok\<close>\<close>

definition ok :: "response \<Rightarrow> bool" where
  "ok r = (200 \<le> status r \<and> status r \<le> 299)"

text \<open>config.js\<close>

definition API_BASE :: "env \<Rightarrow> jstring" where
  "API_BASE ev =
     (case VITE_API_BASE ev of
        None \<Rightarrow> (lit ''https://grantforgeusa-v11-backend.onrender.com'')
      | Some b \<Rightarrow> str_or b (lit ''https://grantforgeusa-v11-backend.onrender.com''))"

definition ENDPOINTS_health :: "env \<Rightarrow> jstring" where
  "ENDPOINTS_health ev = API_BASE ev @ lit ''/get/health''"

definition ENDPOINTS_shortlist :: "env \<Rightarrow> jstring" where
  "ENDPOINTS_shortlist ev = API_BASE ev @ lit ''/questionnaire''"

definition ENDPOINTS_draft :: "env \<Rightarrow> jstring" where
  "ENDPOINTS_draft ev = API_BASE ev @ lit ''/draft''"

definition json_headers :: "(jstring \<times> jstring) list" where
  "json_headers = [(lit ''Content-Type'', (lit ''application/json''))]"

text \<open>\<open>await fetch(url, options)\<close>: the call is issued, then the backend's outcome.\<close>

definition fetch :: "env \<Rightarrow> request \<Rightarrow> ('w, response) comp" where
  "fetch ev rq =
     ([Call rq], case server ev rq of Rejected e \<Rightarrow> Inl e | Resolved r \<Rightarrow> Inr r)"

text \<open>
  The helper \<open>api\<close> of the full client:
  \<^verbatim>\<open>
  const api = async (path, body) => {
    const res = await fetch(`${API_BASE}${path}`, {
      method: "POST",
      headers: { "Content-Type": "application/json" },
      body: body ? JSON.stringify(body) : "{}",
    });
    if (!res.ok) throw new Error(`API ${path} failed (${res.status})`);
    return await res.json();
  };
  \<close>
  The body of the request is the value handed to \<open>JSON.stringify\<close>, or the empty object
  when the argument is falsy.
\<close>

definition api_request :: "env \<Rightarrow> jstring \<Rightarrow> js \<Rightarrow> request" where
  "api_request ev path b =
     \<lparr> url = API_BASE ev @ path, http_method = lit ''POST'', headers = json_headers,
       body = Some (if truthy b then b else JObj []) \<rparr>"

definition api :: "env \<Rightarrow> jstring \<Rightarrow> js \<Rightarrow> ('w, js) comp" where
  "api ev path b =
     bindc (fetch ev (api_request ev path b)) (\<lambda>res.
       if \<not> ok res
       then throw (Thrown ''Error'' (lit ''API '' @ path @ lit '' failed ('' @ show_nat (status res) @ lit '')''))
       else lift (json res))"

text \<open>
  fetcher.js: the three calls of the minimal client, each with its own label, as in
  \<^verbatim>\<open>
  export async function findGrants(org, keywords) {
    const r = await fetch(ENDPOINTS.shortlist, {
      method: "POST",
      headers: { "Content-Type": "application/json" },
      body: JSON.stringify({ organization: org, keywords })
    });
    if (!r.ok) throw new Error(`Shortlist ${r.status}`);
    return r.json();
  }
  \<close>
\<close>

definition apiHealth :: "env \<Rightarrow> ('w, js) comp" where
  "apiHealth ev =
     bindc (fetch ev \<lparr> url = ENDPOINTS_health ev, http_method = lit ''GET'', headers = [],
                       body = None \<rparr>) (\<lambda>r.
       if \<not> ok r then throw (Thrown ''Error'' (lit ''Health '' @ show_nat (status r)))
       else lift (json r))"

definition fetcher_findGrants :: "env \<Rightarrow> js \<Rightarrow> js \<Rightarrow> ('w, js) comp" where
  "fetcher_findGrants ev organization kws =
     bindc (fetch ev \<lparr> url = ENDPOINTS_shortlist ev, http_method = lit ''POST'',
                       headers = json_headers,
                       body = Some (JObj [(''organization'', organization), (''keywords'', kws)]) \<rparr>)
       (\<lambda>r.
         if \<not> ok r then throw (Thrown ''Error'' (lit ''Shortlist '' @ show_nat (status r)))
         else lift (json r))"

definition getDraft :: "env \<Rightarrow> js \<Rightarrow> js \<Rightarrow> ('w, js) comp" where
  "getDraft ev organization topic =
     bindc (fetch ev \<lparr> url = ENDPOINTS_draft ev, http_method = lit ''POST'',
                       headers = json_headers,
                       body = Some (JObj [(''organization'', organization), (''topic'', topic)]) \<rparr>)
       (\<lambda>r.
         if \<not> ok r then throw (Thrown ''Error'' (lit ''Draft '' @ show_nat (status r)))
         else lift (json r))"

section \<open>The full client (App.jsx with drafts, export and payment)\<close>

record app_state =
  org :: jstring
  keywords' :: jstring
  intakeId :: js
  grants :: js
  draft :: js
  loading :: bool
  error :: jstring
  payFor :: js
  paidDraftIds :: "js set"

text \<open>The values of \<open>useState\<close> at the first render.\<close>

definition initial_state :: app_state where
  "initial_state =
     \<lparr> org = [], keywords' = [], intakeId = JNull, grants = JArr [], draft = JNull,
       loading = False, error = [], payFor = JNull, paidDraftIds = {} \<rparr>"

datatype app_write =
    SetOrg jstring
  | SetKeywords jstring
  | SetIntakeId js
  | SetGrants js
  | SetDraft js
  | SetLoading bool
  | SetError jstring
  | SetPayFor js
  | SetPaidDraftIds "js set"

fun apply_write :: "app_write \<Rightarrow> app_state \<Rightarrow> app_state" where
  "apply_write (SetOrg v) s = s\<lparr>org := v\<rparr>"
| "apply_write (SetKeywords v) s = s\<lparr>keywords' := v\<rparr>"
| "apply_write (SetIntakeId v) s = s\<lparr>intakeId := v\<rparr>"
| "apply_write (SetGrants v) s = s\<lparr>grants := v\<rparr>"
| "apply_write (SetDraft v) s = s\<lparr>draft := v\<rparr>"
| "apply_write (SetLoading v) s = s\<lparr>loading := v\<rparr>"
| "apply_write (SetError v) s = s\<lparr>error := v\<rparr>"
| "apply_write (SetPayFor v) s = s\<lparr>payFor := v\<rparr>"
| "apply_write (SetPaidDraftIds v) s = s\<lparr>paidDraftIds := v\<rparr>"

text \<open>The state a list of effects leaves: the writes applied in order.\<close>

fun apply_effect :: "('w \<Rightarrow> 's \<Rightarrow> 's) \<Rightarrow> 'w effect \<Rightarrow> 's \<Rightarrow> 's" where
  "apply_effect ap (Write w) s = ap w s"
| "apply_effect ap (Call rq) s = s"
| "apply_effect ap (ConsoleError e) s = s"

fun run_effects :: "('w \<Rightarrow> 's \<Rightarrow> 's) \<Rightarrow> 'w effect list \<Rightarrow> 's \<Rightarrow> 's" where
  "run_effects ap [] s = s"
| "run_effects ap (x # xs) s = run_effects ap xs (apply_effect ap x s)"

definition after :: "(app_write, 'a) comp \<Rightarrow> app_state \<Rightarrow> app_state" where
  "after c s = run_effects apply_write (fst c) s"

text \<open>The calls a list of effects issued, and the writes made from the first call on.\<close>

fun is_call :: "'w effect \<Rightarrow> bool" where
  "is_call (Call rq) = True"
| "is_call (Write w) = False"
| "is_call (ConsoleError e) = False"

fun calls_of :: "'w effect list \<Rightarrow> request list" where
  "calls_of [] = []"
| "calls_of (Call rq # xs) = rq # calls_of xs"
| "calls_of (Write w # xs) = calls_of xs"
| "calls_of (ConsoleError e # xs) = calls_of xs"

fun writes_of :: "'w effect list \<Rightarrow> 'w list" where
  "writes_of [] = []"
| "writes_of (Write w # xs) = w # writes_of xs"
| "writes_of (Call rq # xs) = writes_of xs"
| "writes_of (ConsoleError e # xs) = writes_of xs"

definition writes_before_calls :: "'w effect list \<Rightarrow> 'w list" where
  "writes_before_calls xs = writes_of (takeWhile (\<lambda>x. \<not> is_call x) xs)"

definition writes_after_first_call :: "'w effect list \<Rightarrow> 'w list" where
  "writes_after_first_call xs = writes_of (dropWhile (\<lambda>x. \<not> is_call x) xs)"

subsection \<open>findGrants\<close>

text \<open>
  \<^verbatim>\<open>
  const findGrants = async () => {
    setError("");
    setDraft(null);
    setGrants([]);
    setLoading(true);
    try {
      const q = await api("/questionnaire", {
        name: org || "Your Organization",
        keywords: keywords || "grants",
      });
      setIntakeId(q.id || q.intake_id || null);
      const g = await api("/find-grants", { keywords });
      setGrants(g.top || g.items || []);
    } catch (e) {
      console.error(e);
      setError(e.message || "Failed to fetch");
    } finally {
      setLoading(false);
    }
  };
  \<close>
\<close>

definition questionnaire_body :: "app_state \<Rightarrow> js" where
  "questionnaire_body s =
     JObj [(''name'', JStr (str_or (org s) (lit ''Your Organization''))),
           (''keywords'', JStr (str_or (keywords' s) (lit ''grants'')))]"

definition find_grants_body :: "app_state \<Rightarrow> js" where
  "find_grants_body s = JObj [(''keywords'', JStr (keywords' s))]"

text \<open>\<open>q.id || q.intake_id || null\<close>\<close>

definition intake_ref :: "js \<Rightarrow> (app_write, js) comp" where
  "intake_ref q = or_else (or_else (lift (getp q ''id'')) (lift (getp q ''intake_id''))) (ret JNull)"

text \<open>\<open>g.top || g.items || []\<close>\<close>

definition grant_list :: "js \<Rightarrow> (app_write, js) comp" where
  "grant_list g = or_else (or_else (lift (getp g ''top'')) (lift (getp g ''items''))) (ret (JArr []))"

text \<open>The \<open>try\<close> block of \<open>findGrants\<close>.\<close>

definition findGrants_try :: "env \<Rightarrow> app_state \<Rightarrow> (app_write, unit) comp" where
  "findGrants_try ev s =
     bindc (api ev (lit ''/questionnaire'') (questionnaire_body s)) (\<lambda>q.
     bindc (intake_ref q) (\<lambda>r.
     bindc (emit (Write (SetIntakeId r))) (\<lambda>_.
     bindc (api ev (lit ''/find-grants'') (find_grants_body s)) (\<lambda>g.
     bindc (grant_list g) (\<lambda>v.
     emit (Write (SetGrants v)))))))"

definition findGrants_catch :: "js_error \<Rightarrow> (app_write, unit) comp" where
  "findGrants_catch e =
     bindc (emit (ConsoleError e)) (\<lambda>_.
     emit (Write (SetError (str_or (message e) (lit ''Failed to fetch'')))))"

definition findGrants :: "env \<Rightarrow> app_state \<Rightarrow> (app_write, unit) comp" where
  "findGrants ev s =
     bindc (emit (Write (SetError []))) (\<lambda>_.
     bindc (emit (Write (SetDraft JNull))) (\<lambda>_.
     bindc (emit (Write (SetGrants (JArr [])))) (\<lambda>_.
     bindc (emit (Write (SetLoading True))) (\<lambda>_.
     try_finally (try_catch (findGrants_try ev s) findGrants_catch)
       (emit (Write (SetLoading False)))))))"

subsection \<open>createDraft\<close>

text \<open>
  \<^verbatim>\<open>
  const createDraft = async (g) => {
    setError("");
    setLoading(true);
    try {
      const d = await api("/draft", {
        intake_id: intakeId,
        organization: org || "Your Organization",
        grant: { id: g.id, title: g.title, agency: g.agency,
                 url: g.url || "https://example.com" },
      });
      setDraft({ id: d.draft_id || d.id, preview: d.preview || "", grant: g });
    } catch (e) {
      console.error(e);
      setError(e.message || "Failed to create draft");
    } finally {
      setLoading(false);
    }
  };
  \<close>
\<close>

definition draft_body :: "app_state \<Rightarrow> js \<Rightarrow> (app_write, js) comp" where
  "draft_body s g =
     bindc (lift (getp g ''id'')) (\<lambda>gid.
     bindc (lift (getp g ''title'')) (\<lambda>gtitle.
     bindc (lift (getp g ''agency'')) (\<lambda>gagency.
     bindc (or_else (lift (getp g ''url'')) (ret (JStr (lit ''https://example.com'')))) (\<lambda>gurl.
     ret (JObj [(''intake_id'', intakeId s),
                (''organization'', JStr (str_or (org s) (lit ''Your Organization''))),
                (''grant'', JObj [(''id'', gid), (''title'', gtitle), (''agency'', gagency),
                                  (''url'', gurl)])])))))"

text \<open>The object \<open>{ id: d.draft_id || d.id, preview: d.preview || "", grant: g }\<close>.\<close>

definition draft_object :: "js \<Rightarrow> js \<Rightarrow> (app_write, js) comp" where
  "draft_object d g =
     bindc (or_else (lift (getp d ''draft_id'')) (lift (getp d ''id''))) (\<lambda>i.
     bindc (or_else (lift (getp d ''preview'')) (ret (JStr []))) (\<lambda>p.
     ret (JObj [(''id'', i), (''preview'', p), (''grant'', g)])))"

definition createDraft_try :: "env \<Rightarrow> app_state \<Rightarrow> js \<Rightarrow> (app_write, unit) comp" where
  "createDraft_try ev s g =
     bindc (draft_body s g) (\<lambda>b.
     bindc (api ev (lit ''/draft'') b) (\<lambda>d.
     bindc (draft_object d g) (\<lambda>v.
     emit (Write (SetDraft v)))))"

definition createDraft_catch :: "js_error \<Rightarrow> (app_write, unit) comp" where
  "createDraft_catch e =
     bindc (emit (ConsoleError e)) (\<lambda>_.
     emit (Write (SetError (str_or (message e) (lit ''Failed to create draft'')))))"

definition createDraft :: "env \<Rightarrow> app_state \<Rightarrow> js \<Rightarrow> (app_write, unit) comp" where
  "createDraft ev s g =
     bindc (emit (Write (SetError []))) (\<lambda>_.
     bindc (emit (Write (SetLoading True))) (\<lambda>_.
     try_finally (try_catch (createDraft_try ev s g) createDraft_catch)
       (emit (Write (SetLoading False)))))"

subsection \<open>exportPDF\<close>

text \<open>
  \<^verbatim>\<open>
  const exportPDF = () => {
    if (!draft) return;
    ...
    const title = draft.grant?.title || "Grant Opportunity";
    const orgName = org || "Your Organization";
    const body = draft.preview || `Dear Review Committee, ... ${orgName} ... ${title} ...`;
    ...
    const filename =
      `GFUSA_${(title || "draft").slice(0, 40).replace(/\s+/g, "_")}_${(draft.id || "doc").slice(0, 8)}.pdf`;
    doc.save(filename);
  };
  \<close>
\<close>

text \<open>
  The class \<open>\s\<close>: the white space and line terminator code units of ECMAScript. Tab,
  line feed, vertical tab, form feed, carriage return, space; no-break space U+00A0;
  U+1680; U+2000 to U+200A; line and paragraph separators U+2028 and U+2029; U+202F;
  U+205F; U+3000; and the byte order mark U+FEFF.
\<close>

definition is_space :: "nat \<Rightarrow> bool" where
  "is_space c =
     (c = 0x09 \<or> c = 0x0A \<or> c = 0x0B \<or> c = 0x0C \<or> c = 0x0D \<or> c = 0x20 \<or> c = 0xA0 \<or>
      c = 0x1680 \<or> (0x2000 \<le> c \<and> c \<le> 0x200A) \<or> c = 0x2028 \<or> c = 0x2029 \<or>
      c = 0x202F \<or> c = 0x205F \<or> c = 0x3000 \<or> c = 0xFEFF)"

text \<open>\<open>.replace(/\s+/g, "_")\<close>: every maximal run of whitespace becomes one underscore.\<close>

function collapse_ws :: "jstring \<Rightarrow> jstring" where
  "collapse_ws [] = []"
| "collapse_ws (c # cs) =
     (if is_space c then 0x5F # collapse_ws (dropWhile is_space cs)
      else c # collapse_ws cs)"
  by pat_completeness auto
termination
  by (relation "measure length") (auto simp: less_Suc_eq_le length_dropWhile_le)

definition not_a_function :: "string \<Rightarrow> js_error" where
  "not_a_function m = Thrown ''TypeError'' (lit (m @ '' is not a function''))"

text \<open>
  \<open>v.slice(0, n)\<close> for \<open>n\<close> not negative: the first \<open>n\<close> code units of a string, the
  first \<open>n\<close> elements of an array; calling it on anything else throws.
\<close>

fun js_slice :: "js \<Rightarrow> nat \<Rightarrow> js_error + js" where
  "js_slice (JStr s) n = Inr (JStr (take n s))"
| "js_slice (JArr xs) n = Inr (JArr (take n xs))"
| "js_slice v n = Inl (not_a_function ''slice'')"

text \<open>\<open>v.replace(/\s+/g, "_")\<close>: only strings have the method.\<close>

fun js_replace_ws :: "js \<Rightarrow> js_error + js" where
  "js_replace_ws (JStr s) = Inr (JStr (collapse_ws s))"
| "js_replace_ws v = Inl (not_a_function ''replace'')"

definition placeholder :: "jstring \<Rightarrow> jstring \<Rightarrow> jstring" where
  "placeholder orgName title =
     lit ''Dear Review Committee,'' @ [0x0A, 0x0A] @
     lit ''This is a generated placeholder draft for '' @ orgName @ lit '' applying to: '' @ title @ lit ''.'' @
     [0x0A, 0x0A] @
     lit ''[Insert problem statement, goals, outcomes, budget summary.]'' @ [0x0A, 0x0A] @
     lit ''Sincerely,'' @ [0x0A] @ orgName"

text \<open>
  What \<open>exportPDF\<close> hands to the PDF library: the text under the heading and the name of
  the file saved. The fixed heading line and the page geometry are the library's business.
\<close>

record pdf =
  pdf_body :: js
  pdf_filename :: jstring

text \<open>
  \<open>None\<close> is the early return: nothing is built and nothing saved. A thrown error leaves
  the handler before \<open>doc.save\<close>.
\<close>

definition exportPDF :: "app_state \<Rightarrow> (app_write, pdf option) comp" where
  "exportPDF s =
     (if \<not> truthy (draft s) then ret None
      else
        bindc (lift (getp (draft s) ''grant'')) (\<lambda>gr.
        bindc (ret (js_or (getp_opt gr ''title'') (JStr (lit ''Grant Opportunity'')))) (\<lambda>title.
        bindc (ret (str_or (org s) (lit ''Your Organization''))) (\<lambda>orgName.
        bindc (or_else (lift (getp (draft s) ''preview''))
                 (ret (JStr (placeholder orgName (to_string title))))) (\<lambda>b.
        bindc (lift (js_slice (js_or title (JStr (lit ''draft''))) 40)) (\<lambda>t40.
        bindc (lift (js_replace_ws t40)) (\<lambda>t.
        bindc (lift (getp (draft s) ''id'')) (\<lambda>i.
        bindc (lift (js_slice (js_or i (JStr (lit ''doc''))) 8)) (\<lambda>i8.
        ret (Some \<lparr> pdf_body = b,
                    pdf_filename =
                      lit ''GFUSA_'' @ to_string t @ lit ''_'' @ to_string i8 @ lit ''.pdf'' \<rparr>))))))))))"

subsection \<open>openPay and confirmPay\<close>

text \<open>
  \<^verbatim>\<open>
  const openPay = (gOrDraft) => {
    const id = gOrDraft.id || gOrDraft.grant?.id || "unknown";
    const title = gOrDraft.title || gOrDraft.grant?.title || "Draft";
    setPayFor({ id, title });
  };
  const confirmPay = () => {
    if (payFor?.id) {
      const next = new Set(paidDraftIds);
      next.add(payFor.id);
      setPaidDraftIds(next);
    }
    setPayFor(null);
  };
  \<close>
  The paid set is a set of values; two ids are the same member when they are equal.
\<close>

definition openPay :: "js \<Rightarrow> (app_write, unit) comp" where
  "openPay gOrDraft =
     bindc (or_else
              (or_else (lift (getp gOrDraft ''id''))
                 (bindc (lift (getp gOrDraft ''grant'')) (\<lambda>gr. ret (getp_opt gr ''id''))))
              (ret (JStr (lit ''unknown'')))) (\<lambda>i.
     bindc (or_else
              (or_else (lift (getp gOrDraft ''title''))
                 (bindc (lift (getp gOrDraft ''grant'')) (\<lambda>gr. ret (getp_opt gr ''title''))))
              (ret (JStr (lit ''Draft'')))) (\<lambda>title.
     emit (Write (SetPayFor (JObj [(''id'', i), (''title'', title)])))))"

definition confirmPay :: "app_state \<Rightarrow> (app_write, unit) comp" where
  "confirmPay s =
     bindc (if truthy (getp_opt (payFor s) ''id'')
            then emit (Write (SetPaidDraftIds
                                (insert (getp_opt (payFor s) ''id'') (paidDraftIds s))))
            else ret ()) (\<lambda>_.
     emit (Write (SetPayFor JNull)))"

subsection \<open>The handlers the rendered page offers\<close>

text \<open>
  Typing into either input, the buttons Find Grants, Draft, Download PDF, Payment (on a
  grant or on the draft), Mark as Paid, and closing or cancelling the payment window.
\<close>

datatype action =
    TypeOrg jstring
  | TypeKeywords jstring
  | ClickFindGrants
  | ClickDraft js
  | ClickDownloadPDF
  | ClickPayment js
  | ClickMarkAsPaid
  | ClosePayment

fun handler :: "env \<Rightarrow> action \<Rightarrow> app_state \<Rightarrow> app_write effect list" where
  "handler ev (TypeOrg v) s = [Write (SetOrg v)]"
| "handler ev (TypeKeywords v) s = [Write (SetKeywords v)]"
| "handler ev ClickFindGrants s = fst (findGrants ev s)"
| "handler ev (ClickDraft g) s = fst (createDraft ev s g)"
| "handler ev ClickDownloadPDF s = fst (exportPDF s)"
| "handler ev (ClickPayment t) s = fst (openPay t)"
| "handler ev ClickMarkAsPaid s = fst (confirmPay s)"
| "handler ev ClosePayment s = [Write (SetPayFor JNull)]"

definition step :: "env \<Rightarrow> action \<Rightarrow> app_state \<Rightarrow> app_state" where
  "step ev a s = run_effects apply_write (handler ev a s) s"

text \<open>
  A session: user actions one after the other, the backend free to answer each
  differently. Each handler sees the state left by the action before it and runs to its
  end before the next action; two pending handlers interleaving is not part of the model.
\<close>

fun session :: "(env \<times> action) list \<Rightarrow> app_state \<Rightarrow> app_state" where
  "session [] s = s"
| "session ((ev, a) # rest) s = session rest (step ev a s)"

section \<open>The minimal client (App.jsx v1.1 over fetcher.js)\<close>

record mini_state =
  org_v1 :: jstring
  kw :: jstring
  status_v1 :: jstring
  results :: js

datatype mini_write =
    SetOrg_v1 jstring
  | SetKw jstring
  | SetStatus jstring
  | SetResults js

fun apply_mini_write :: "mini_write \<Rightarrow> mini_state \<Rightarrow> mini_state" where
  "apply_mini_write (SetOrg_v1 v) s = s\<lparr>org_v1 := v\<rparr>"
| "apply_mini_write (SetKw v) s = s\<lparr>kw := v\<rparr>"
| "apply_mini_write (SetStatus v) s = s\<lparr>status_v1 := v\<rparr>"
| "apply_mini_write (SetResults v) s = s\<lparr>results := v\<rparr>"

definition after_v1 :: "(mini_write, 'a) comp \<Rightarrow> mini_state \<Rightarrow> mini_state" where
  "after_v1 c s = run_effects apply_mini_write (fst c) s"

text \<open>The ellipsis of the source text, U+2026.\<close>

definition ellipsis :: jstring where
  "ellipsis = [0x2026]"

text \<open>
  \<^verbatim>\<open>
  async function handleFind() {
    setStatus("Finding grants...");
    setResults([]);
    try {
      const data = await findGrants(org || "Your Organization", kw || "community");
      setResults(data.results || []);
      setStatus(`Found ${data.results?.length || 0} item(s)`);
    } catch (e) {
      setStatus("Error: Failed to fetch");
      console.error(e);
    }
  }
  \<close>
  (the first status ends in the ellipsis character U+2026, not in three dots).
\<close>

definition found_message :: "js \<Rightarrow> jstring" where
  "found_message r = lit ''Found '' @ to_string (js_or (getp_opt r ''length'') (JNum 0)) @ lit '' item(s)''"

definition handleFind_try :: "env \<Rightarrow> mini_state \<Rightarrow> (mini_write, unit) comp" where
  "handleFind_try ev s =
     bindc (fetcher_findGrants ev (JStr (str_or (org_v1 s) (lit ''Your Organization'')))
              (JStr (str_or (kw s) (lit ''community'')))) (\<lambda>data.
     bindc (or_else (lift (getp data ''results'')) (ret (JArr []))) (\<lambda>v.
     bindc (emit (Write (SetResults v))) (\<lambda>_.
     bindc (lift (getp data ''results'')) (\<lambda>r.
     emit (Write (SetStatus (found_message r)))))))"

definition handleFind_catch :: "js_error \<Rightarrow> (mini_write, unit) comp" where
  "handleFind_catch e =
     bindc (emit (Write (SetStatus (lit ''Error: Failed to fetch'')))) (\<lambda>_.
     emit (ConsoleError e))"

definition handleFind :: "env \<Rightarrow> mini_state \<Rightarrow> (mini_write, unit) comp" where
  "handleFind ev s =
     bindc (emit (Write (SetStatus (lit ''Finding grants'' @ ellipsis)))) (\<lambda>_.
     bindc (emit (Write (SetResults (JArr [])))) (\<lambda>_.
     try_catch (handleFind_try ev s) handleFind_catch))"

section \<open>Observations on a run\<close>

text \<open>The values written to the loading flag, in order.\<close>

fun loading_writes :: "app_write list \<Rightarrow> bool list" where
  "loading_writes [] = []"
| "loading_writes (SetLoading b # ws) = b # loading_writes ws"
| "loading_writes (w # ws) = loading_writes ws"

text \<open>The writes to the grant list and to the active draft.\<close>

fun grants_or_draft_writes :: "app_write list \<Rightarrow> app_write list" where
  "grants_or_draft_writes [] = []"
| "grants_or_draft_writes (SetGrants v # ws) = SetGrants v # grants_or_draft_writes ws"
| "grants_or_draft_writes (SetDraft v # ws) = SetDraft v # grants_or_draft_writes ws"
| "grants_or_draft_writes (w # ws) = grants_or_draft_writes ws"

section \<open>Backends and states of the worked examples\<close>

definition reply :: "nat \<Rightarrow> js \<Rightarrow> fetch_outcome" where
  "reply st v = Resolved \<lparr> status = st, json = Inr v \<rparr>"

text \<open>A response whose body is an HTML page: reading it as JSON rejects.\<close>

definition html_error :: js_error where
  "html_error = Thrown ''SyntaxError'' (lit ''Unexpected token < in JSON at position 0'')"

definition reply_html :: "nat \<Rightarrow> fetch_outcome" where
  "reply_html st = Resolved \<lparr> status = st, json = Inl html_error \<rparr>"

definition env_of :: "(request \<Rightarrow> fetch_outcome) \<Rightarrow> env" where
  "env_of f = \<lparr> VITE_API_BASE = None, server = f \<rparr>"

definition stem_fund :: js where
  "stem_fund = JObj [(''id'', JStr (lit ''g1'')), (''title'', JStr (lit ''STEM Fund''))]"

definition three_grants :: "js list" where
  "three_grants =
     [stem_fund,
      JObj [(''id'', JStr (lit ''g2'')), (''title'', JStr (lit ''Arts Access'')), (''url'', JStr (lit ''https://arts.example/a''))],
      JObj [(''id'', JStr (lit ''g3''))]]"

text \<open>
  A backend that answers every route: the questionnaire without an intake id, the search
  with three grants, the draft with a server-labeled id and no preview.
\<close>

definition demo_backend :: "request \<Rightarrow> fetch_outcome" where
  "demo_backend rq =
     (if url rq = lit ''https://grantforgeusa-v11-backend.onrender.com/find-grants''
      then reply 200 (JObj [(''top'', JArr three_grants)])
      else if url rq = lit ''https://grantforgeusa-v11-backend.onrender.com/draft''
      then reply 200 (JObj [(''ok'', JBool True), (''draft_id'', JStr (lit ''d-20240101-xyz'')),
                            (''preview'', JStr [])])
      else if url rq = lit ''https://grantforgeusa-v11-backend.onrender.com/questionnaire''
      then reply 200 (JObj [(''ok'', JBool True), (''results'', JArr three_grants)])
      else reply 404 JNull)"

text \<open>A backend whose search route is down while the questionnaire route answers with an id.\<close>

definition search_down_backend :: "request \<Rightarrow> fetch_outcome" where
  "search_down_backend rq =
     (if url rq = lit ''https://grantforgeusa-v11-backend.onrender.com/questionnaire''
      then reply 200 (JObj [(''id'', JStr (lit ''q-17''))])
      else reply_html 502)"

text \<open>The form with the organization filled in and the keywords left empty.\<close>

definition acme :: app_state where
  "acme = initial_state\<lparr>org := lit ''Acme''\<rparr>"

definition acme_v1 :: mini_state where
  "acme_v1 = \<lparr> org_v1 = lit ''Acme'', kw = [], status_v1 = [], results = JArr [] \<rparr>"

text \<open>A state after an earlier successful search and draft.\<close>

definition acme_with_draft :: app_state where
  "acme_with_draft =
     acme\<lparr> grants := JArr three_grants,
            draft := JObj [(''id'', JStr (lit ''d-20240101-xyz'')), (''preview'', JStr []),
                           (''grant'', stem_fund)] \<rparr>"

text \<open>An empty form and a draft whose id and grant title are empty strings.\<close>

definition blank_with_untitled_draft :: app_state where
  "blank_with_untitled_draft =
     initial_state\<lparr> draft := JObj [(''id'', JStr []), (''preview'', JStr []),
                                     (''grant'', JObj [(''id'', JStr (lit ''g3'')), (''title'', JStr [])])] \<rparr>"

text \<open>A draft whose grant title is longer than 40 characters and has runs of whitespace.\<close>

definition acme_with_long_title :: app_state where
  "acme_with_long_title =
     acme\<lparr> draft := JObj [(''id'', JStr (lit ''draft-0123456789'')), (''preview'', JStr []),
                           (''grant'',
                            JObj [(''id'', JStr (lit ''g7'')),
                                  (''title'',
                                   JStr (lit ''Community   Health and'' @ [0x09] @
                                         (lit ''Wellness Outreach Initiative 2025'')))])] \<rparr>"

text \<open>A draft whose grant title has a no-break space, U+00A0, between two letters.\<close>

definition nbsp_draft :: app_state where
  "nbsp_draft =
     acme\<lparr> draft := JObj [(''id'', JStr (lit ''d1'')), (''preview'', JStr []),
                           (''grant'',
                            JObj [(''title'', JStr (lit ''A'' @ [0xA0] @ lit ''B''))])] \<rparr>"

section \<open>How the handlers unfold\<close>

lemma lit_Nil [simp]: "lit [] = []"
  by (simp add: lit_def)

lemma lit_eq_Nil [simp]: "lit a = [] \<longleftrightarrow> a = []"
  by (simp add: lit_def)

lemma Nil_eq_lit [simp]: "[] = lit a \<longleftrightarrow> a = []"
  by (auto simp: lit_def)

lemma lit_eq_iff [simp]: "lit a = lit b \<longleftrightarrow> a = b"
  unfolding lit_def by (rule inj_map_eq_map) (rule inj_of_char)

lemma lit_append [simp]: "lit a @ lit b = lit (a @ b)"
  by (simp add: lit_def)

lemma lit_append_more [simp]: "lit a @ lit b @ r = lit (a @ b) @ r"
  by (simp add: lit_def)

lemma show_nat_lits:
  "show_nat 3 = lit ''3''"
  "show_nat (Suc (Suc (Suc 0))) = lit ''3''"
  "show_nat 500 = lit ''500''"
  "show_nat 502 = lit ''502''"
  "show_nat 503 = lit ''503''"
  by (simp_all add: show_nat.simps digit_char_def lit_def)

lemma take_lit: "take n (lit a) = lit (take n a)"
  by (simp add: lit_def take_map)

lemmas comp_defs = ret_def throw_def emit_def lift_def bindc_def try_catch_def try_finally_def or_else_def

lemma api_eq:
  "api ev path b =
     ([Call (api_request ev path b)],
      case server ev (api_request ev path b) of
        Rejected e \<Rightarrow> Inl e
      | Resolved r \<Rightarrow>
          if ok r then json r
          else Inl (Thrown ''Error'' (lit ''API '' @ path @ lit '' failed ('' @ show_nat (status r) @ lit '')'')))"
  by (simp add: api_def fetch_def comp_defs split: fetch_outcome.splits sum.splits)

lemma api_fst: "fst (api ev path b) = [Call (api_request ev path b)]"
  by (simp add: api_eq)

lemma bindc_eq:
  "bindc m f =
     (case snd m of Inl e \<Rightarrow> (fst m, Inl e)
      | Inr x \<Rightarrow> (fst m @ fst (f x), snd (f x)))"
  by (cases m) (simp add: bindc_def split: sum.splits prod.splits)

lemma getp_defined: "v \<noteq> JNull \<Longrightarrow> v \<noteq> JUndefined \<Longrightarrow> getp v k = Inr (getp_opt v k)"
  by (cases v) (simp_all add: getp_opt_def)

lemma getp_opt_simps [simp]:
  "getp_opt JNull k = JUndefined"
  "getp_opt JUndefined k = JUndefined"
  "getp_opt (JObj fs) k = field fs k"
  by (simp_all add: getp_opt_def)

lemma pure_ret: "fst (ret x) = []"
  by (simp add: ret_def)

lemma pure_lift: "fst (lift r) = []"
  by (simp add: lift_def)

lemma pure_bindc: "fst m = [] \<Longrightarrow> (\<And>x. fst (f x) = []) \<Longrightarrow> fst (bindc m f) = []"
  by (simp add: bindc_eq split: sum.splits)

lemma pure_or_else: "fst a = [] \<Longrightarrow> fst b = [] \<Longrightarrow> fst (or_else a b) = []"
  by (simp add: or_else_def pure_bindc pure_ret)

lemmas pure_intros = pure_ret pure_lift pure_bindc pure_or_else

lemma intake_ref_effects: "fst (intake_ref q) = []"
  by (simp add: intake_ref_def pure_intros)

lemma grant_list_effects: "fst (grant_list q) = []"
  by (simp add: grant_list_def pure_intros)

lemma draft_body_effects: "fst (draft_body s g) = []"
  by (simp add: draft_body_def pure_intros)

lemma draft_object_effects: "fst (draft_object d g) = []"
  by (simp add: draft_object_def pure_intros)

lemma exportPDF_effects: "fst (exportPDF s) = []"
  by (simp add: exportPDF_def pure_intros)

lemma run_effects_append:
  "run_effects ap (xs @ ys) s = run_effects ap ys (run_effects ap xs s)"
  by (induction xs arbitrary: s) simp_all

lemma draft_body_defined:
  "g \<noteq> JNull \<Longrightarrow> g \<noteq> JUndefined \<Longrightarrow>
   draft_body s g =
     ([], Inr (JObj [(''intake_id'', intakeId s),
                (''organization'', JStr (str_or (org s) (lit ''Your Organization''))),
                (''grant'', JObj [(''id'', getp_opt g ''id''), (''title'', getp_opt g ''title''),
                                  (''agency'', getp_opt g ''agency''),
                                  (''url'', js_or (getp_opt g ''url'') (JStr (lit ''https://example.com'')))])]))"
  by (simp add: draft_body_def getp_defined comp_defs js_or_def)

lemma draft_object_defined:
  "d \<noteq> JNull \<Longrightarrow> d \<noteq> JUndefined \<Longrightarrow>
   draft_object d g =
     ([], Inr (JObj [(''id'', js_or (getp_opt d ''draft_id'') (getp_opt d ''id'')),
                     (''preview'', js_or (getp_opt d ''preview'') (JStr [])),
                     (''grant'', g)]))"
  by (simp add: draft_object_def getp_defined comp_defs js_or_def)

lemma intake_ref_defined:
  "q \<noteq> JNull \<Longrightarrow> q \<noteq> JUndefined \<Longrightarrow>
   intake_ref q = ([], Inr (js_or (js_or (getp_opt q ''id'') (getp_opt q ''intake_id'')) JNull))"
  by (simp add: intake_ref_def getp_defined comp_defs js_or_def)

lemma grant_list_defined:
  "g \<noteq> JNull \<Longrightarrow> g \<noteq> JUndefined \<Longrightarrow>
   grant_list g = ([], Inr (js_or (js_or (getp_opt g ''top'') (getp_opt g ''items'')) (JArr [])))"
  by (simp add: grant_list_def getp_defined comp_defs js_or_def)

lemma findGrants_try_eq:
  "findGrants_try ev s =
     (let Q = api_request ev (lit ''/questionnaire'') (questionnaire_body s);
          G = api_request ev (lit ''/find-grants'') (find_grants_body s)
      in case snd (api ev (lit ''/questionnaire'') (questionnaire_body s) :: (app_write, js) comp) of
           Inl e \<Rightarrow> ([Call Q], Inl e)
         | Inr q \<Rightarrow>
             (case snd (intake_ref q) of
                Inl e \<Rightarrow> ([Call Q], Inl e)
              | Inr r \<Rightarrow>
                  (case snd (api ev (lit ''/find-grants'') (find_grants_body s) :: (app_write, js) comp) of
                     Inl e \<Rightarrow> ([Call Q, Write (SetIntakeId r), Call G], Inl e)
                   | Inr g \<Rightarrow>
                       (case snd (grant_list g) of
                          Inl e \<Rightarrow> ([Call Q, Write (SetIntakeId r), Call G], Inl e)
                        | Inr v \<Rightarrow>
                            ([Call Q, Write (SetIntakeId r), Call G, Write (SetGrants v)],
                             Inr ())))))"
  unfolding findGrants_try_def bindc_eq
  by (simp add: api_fst intake_ref_effects grant_list_effects emit_def Let_def split: sum.splits)

lemma findGrants_eq:
  "findGrants ev s =
     ([Write (SetError []), Write (SetDraft JNull), Write (SetGrants (JArr [])),
       Write (SetLoading True)] @ fst (findGrants_try ev s) @
      (case snd (findGrants_try ev s) of
         Inl e \<Rightarrow> [ConsoleError e, Write (SetError (str_or (message e) (lit ''Failed to fetch'')))]
       | Inr u \<Rightarrow> []) @
      [Write (SetLoading False)], Inr ())"
  by (cases "findGrants_try ev s")
     (simp add: findGrants_def findGrants_catch_def comp_defs split: sum.splits)

lemma createDraft_try_eq:
  "createDraft_try ev s g =
     (case snd (draft_body s g) of
        Inl e \<Rightarrow> ([], Inl e)
      | Inr b \<Rightarrow>
          (case snd (api ev (lit ''/draft'') b :: (app_write, js) comp) of
             Inl e \<Rightarrow> ([Call (api_request ev (lit ''/draft'') b)], Inl e)
           | Inr d \<Rightarrow>
               (case snd (draft_object d g) of
                  Inl e \<Rightarrow> ([Call (api_request ev (lit ''/draft'') b)], Inl e)
                | Inr v \<Rightarrow> ([Call (api_request ev (lit ''/draft'') b), Write (SetDraft v)], Inr ()))))"
  unfolding createDraft_try_def bindc_eq
  by (simp add: api_fst draft_body_effects draft_object_effects emit_def split: sum.splits)

lemma createDraft_eq:
  "createDraft ev s g =
     ([Write (SetError []), Write (SetLoading True)] @ fst (createDraft_try ev s g) @
      (case snd (createDraft_try ev s g) of
         Inl e \<Rightarrow> [ConsoleError e, Write (SetError (str_or (message e) (lit ''Failed to create draft'')))]
       | Inr u \<Rightarrow> []) @
      [Write (SetLoading False)], Inr ())"
  by (cases "createDraft_try ev s g")
     (simp add: createDraft_def createDraft_catch_def comp_defs split: sum.splits)

lemma show_int_nat: "show_int (int n) = show_nat n"
  by (simp add: show_int_def)

lemma found_message_array:
  "found_message (JArr xs) = lit ''Found '' @ show_nat (length xs) @ lit '' item(s)''"
  by (cases "xs = []") (simp_all add: found_message_def getp_opt_def js_or_def show_int_def)

lemma fetcher_findGrants_eq:
  "fetcher_findGrants ev a b =
     ([Call \<lparr> url = ENDPOINTS_shortlist ev, http_method = lit ''POST'', headers = json_headers,
               body = Some (JObj [(''organization'', a), (''keywords'', b)]) \<rparr>],
      case server ev \<lparr> url = ENDPOINTS_shortlist ev, http_method = lit ''POST'',
                       headers = json_headers,
                       body = Some (JObj [(''organization'', a), (''keywords'', b)]) \<rparr> of
        Rejected e \<Rightarrow> Inl e
      | Resolved r \<Rightarrow>
          if ok r then json r
          else Inl (Thrown ''Error'' (lit ''Shortlist '' @ show_nat (status r))))"
  by (simp add: fetcher_findGrants_def fetch_def comp_defs split: fetch_outcome.splits sum.splits)

lemma truthy_defined: "truthy v \<Longrightarrow> v \<noteq> JNull \<and> v \<noteq> JUndefined"
  by (cases v) simp_all

lemma openPay_defined:
  "t \<noteq> JNull \<Longrightarrow> t \<noteq> JUndefined \<Longrightarrow>
   openPay t =
     ([Write (SetPayFor
        (JObj [(''id'', js_or (js_or (getp_opt t ''id'') (getp_opt (getp_opt t ''grant'') ''id''))
                          (JStr (lit ''unknown''))),
               (''title'', js_or (js_or (getp_opt t ''title'')
                                   (getp_opt (getp_opt t ''grant'') ''title''))
                             (JStr (lit ''Draft'')))]))], Inr ())"
  by (simp add: openPay_def getp_defined comp_defs js_or_def)

lemma openPay_undefined:
  "t = JNull \<or> t = JUndefined \<Longrightarrow> fst (openPay t) = []"
  by (auto simp: openPay_def comp_defs)

lemma openPay_keeps_paid:
  "paidDraftIds (run_effects apply_write (fst (openPay t)) s) = paidDraftIds s"
proof (cases "t = JNull \<or> t = JUndefined")
  case True
  then show ?thesis by (simp add: openPay_undefined)
next
  case False
  then show ?thesis by (simp add: openPay_defined)
qed

lemma confirmPay_eq:
  "fst (confirmPay s) =
     (if truthy (getp_opt (payFor s) ''id'')
      then [Write (SetPaidDraftIds (insert (getp_opt (payFor s) ''id'') (paidDraftIds s))),
            Write (SetPayFor JNull)]
      else [Write (SetPayFor JNull)])"
  by (simp add: confirmPay_def comp_defs)

lemma findGrants_keeps_paid:
  "paidDraftIds (run_effects apply_write (fst (findGrants ev s)) s) = paidDraftIds s"
  by (simp add: findGrants_eq findGrants_try_eq Let_def split: sum.splits)

lemma createDraft_keeps_paid:
  "paidDraftIds (run_effects apply_write (fst (createDraft ev s g)) s) = paidDraftIds s"
  by (simp add: createDraft_eq createDraft_try_eq split: sum.splits)

lemma step_paid_mono: "paidDraftIds s \<subseteq> paidDraftIds (step ev a s)"
  by (cases a)
     (auto simp: step_def findGrants_keeps_paid createDraft_keeps_paid openPay_keeps_paid
        exportPDF_effects confirmPay_eq)

lemma session_paid_mono: "paidDraftIds s \<subseteq> paidDraftIds (session acts s)"
proof (induction acts arbitrary: s)
  case Nil
  then show ?case by simp
next
  case (Cons x acts)
  obtain ev a where x: "x = (ev, a)" by (cases x)
  have "paidDraftIds s \<subseteq> paidDraftIds (step ev a s)"
    by (rule step_paid_mono)
  also have "\<dots> \<subseteq> paidDraftIds (session acts (step ev a s))"
    by (rule Cons.IH)
  finally show ?case by (simp add: x)
qed

lemma js_or_default_nonempty:
  "d \<noteq> [] \<Longrightarrow> js_or v (JStr d) = JStr t \<Longrightarrow> t \<noteq> []"
  by (cases "truthy v") (auto simp: js_or_def)

lemma collapse_ws_no_space: "c \<in> set (collapse_ws s) \<Longrightarrow> \<not> is_space c"
  by (induction s rule: collapse_ws.induct) (auto simp: is_space_def split: if_splits)

lemma collapse_ws_id: "\<forall>c \<in> set s. \<not> is_space c \<Longrightarrow> collapse_ws s = s"
  by (induction s) simp_all

lemma placeholder_has_org: "sublist a (placeholder a t)"
proof -
  have e: "placeholder a t =
     (lit ''Dear Review Committee,'' @ [0x0A, 0x0A] @
      lit ''This is a generated placeholder draft for '' @ a @ lit '' applying to: '' @ t @ lit ''.'' @
      [0x0A, 0x0A] @
      lit ''[Insert problem statement, goals, outcomes, budget summary.]'' @ [0x0A, 0x0A] @
      lit ''Sincerely,'' @ [0x0A]) @ a"
    by (simp add: placeholder_def)
  show ?thesis
    unfolding e by (rule sublist_append_leftI)
qed

lemma placeholder_has_title: "sublist t (placeholder a t)"
proof -
  have e: "placeholder a t =
     (lit ''Dear Review Committee,'' @ [0x0A, 0x0A] @
      lit ''This is a generated placeholder draft for '' @ a @ lit '' applying to: '') @ t @
     (lit ''.'' @ [0x0A, 0x0A] @
      lit ''[Insert problem statement, goals, outcomes, budget summary.]'' @ [0x0A, 0x0A] @
      lit ''Sincerely,'' @ [0x0A] @ a)"
    by (simp add: placeholder_def)
  show ?thesis
    unfolding e by (rule sublist_appendI)
qed

lemmas example_defs =
  env_of_def demo_backend_def search_down_backend_def reply_def reply_html_def html_error_def
  acme_def acme_v1_def acme_with_draft_def blank_with_untitled_draft_def
  acme_with_long_title_def nbsp_draft_def initial_state_def
  three_grants_def stem_fund_def

lemmas request_defs =
  api_request_def API_BASE_def json_headers_def questionnaire_body_def find_grants_body_def
  ENDPOINTS_shortlist_def str_or_def ok_def

section \<open>Submitting a search\<close>

text \<open>
  C1. The claim: with an empty organization or empty keywords, every call of the search
  carries the substituted defaults, never the empty string. The questionnaire call does;
  the grant-search call of \<open>findGrants\<close> sends the keywords as typed. With organization
  \<open>Acme\<close> and no keywords, the bodies of the two calls are these.
\<close>

theorem C1_search_call_sends_empty_keywords:
  "map body (calls_of (fst (findGrants (env_of demo_backend) acme))) =
     [Some (JObj [(''name'', JStr (lit ''Acme'')), (''keywords'', JStr (lit ''grants''))]),
      Some (JObj [(''keywords'', JStr [])])]"
  by (simp add: findGrants_eq findGrants_try_eq api_eq example_defs request_defs Let_def
        intake_ref_defined grant_list_defined js_or_def field_def)

text \<open>
  C2. A search applies nothing it would have to take back. Before the first call it
  clears the error, the draft and the grant list and sets the loading flag. After that, a
  backend result is written only once its call has fully succeeded. So when the search
  fails at either step, no grant list is applied; from the first call on, the only writes
  are the error and the loading flag, preceded by the intake reference when (and only
  when) the questionnaire call had succeeded; the state left is the cleared state with
  that error, and the error is the failure's message, or \<open>Failed to fetch\<close> when it has
  none.
\<close>

theorem C2_failed_search_applies_no_result:
  assumes "snd (findGrants_try ev s) = Inl e"
  shows "writes_before_calls (fst (findGrants ev s)) =
           [SetError [], SetDraft JNull, SetGrants (JArr []), SetLoading True] \<and>
         grants (after (findGrants ev s) s) = JArr [] \<and>
         error (after (findGrants ev s) s) =
           (if message e = [] then lit ''Failed to fetch'' else message e) \<and>
         (writes_after_first_call (fst (findGrants ev s)) =
            [SetError (if message e = [] then lit ''Failed to fetch'' else message e),
             SetLoading False] \<and>
          after (findGrants ev s) s =
            s\<lparr> draft := JNull, grants := JArr [], loading := False,
               error := (if message e = [] then lit ''Failed to fetch'' else message e) \<rparr>
          \<or> (\<exists>q r. snd (api ev (lit ''/questionnaire'') (questionnaire_body s)
                           :: (app_write, js) comp) = Inr q \<and>
                    snd (intake_ref q) = Inr r \<and>
                    writes_after_first_call (fst (findGrants ev s)) =
                      [SetIntakeId r,
                       SetError (if message e = [] then lit ''Failed to fetch'' else message e),
                       SetLoading False] \<and>
                    after (findGrants ev s) s =
                      s\<lparr> intakeId := r, draft := JNull, grants := JArr [], loading := False,
                         error := (if message e = [] then lit ''Failed to fetch''
                                   else message e) \<rparr>))"
  using assms
  by (auto simp: findGrants_eq findGrants_try_eq after_def writes_after_first_call_def
        writes_before_calls_def Let_def str_or_def split: sum.splits)

text \<open>
  C2 at a state holding grants and a draft, with a backend whose search route answers 502
  after the questionnaire succeeded.
\<close>

theorem C2_witness:
  "snd (findGrants_try (env_of search_down_backend) acme_with_draft) =
     Inl (Thrown ''Error'' (lit ''API /find-grants failed (502)'')) \<and>
   writes_before_calls (fst (findGrants (env_of search_down_backend) acme_with_draft)) =
     [SetError [], SetDraft JNull, SetGrants (JArr []), SetLoading True] \<and>
   grants (after (findGrants (env_of search_down_backend) acme_with_draft) acme_with_draft) =
     JArr [] \<and>
   error (after (findGrants (env_of search_down_backend) acme_with_draft) acme_with_draft) =
     lit ''API /find-grants failed (502)'' \<and>
   writes_after_first_call (fst (findGrants (env_of search_down_backend) acme_with_draft)) =
     [SetIntakeId (JStr (lit ''q-17'')), SetError (lit ''API /find-grants failed (502)''),
      SetLoading False]"
proof -
  have h: "snd (findGrants_try (env_of search_down_backend) acme_with_draft) =
             Inl (Thrown ''Error'' (lit ''API /find-grants failed (502)''))"
    by (simp add: findGrants_try_eq api_eq example_defs request_defs Let_def
          intake_ref_defined js_or_def field_def show_nat_lits)
  have w: "writes_after_first_call (fst (findGrants (env_of search_down_backend) acme_with_draft)) =
     [SetIntakeId (JStr (lit ''q-17'')), SetError (lit ''API /find-grants failed (502)''),
      SetLoading False]"
    by (simp add: findGrants_eq findGrants_try_eq api_eq example_defs request_defs Let_def
          intake_ref_defined js_or_def field_def show_nat_lits writes_after_first_call_def)
  from C2_failed_search_applies_no_result [OF h] h w show ?thesis
    by simp
qed

text \<open>
  C3, as stated, has a successful search set a status message with the count of grants.
  In the full client both calls succeed here with three grants; the list is stored, and
  the writes of the whole run contain no message: the only string the client shows, the
  error, is cleared and stays empty.
\<close>

theorem C3_counterexample:
  "writes_of (fst (findGrants (env_of demo_backend) (acme\<lparr>keywords' := lit ''stem''\<rparr>))) =
     [SetError [], SetDraft JNull, SetGrants (JArr []), SetLoading True, SetIntakeId JNull,
      SetGrants (JArr three_grants), SetLoading False] \<and>
   length three_grants = 3 \<and>
   error (after (findGrants (env_of demo_backend) (acme\<lparr>keywords' := lit ''stem''\<rparr>))
            (acme\<lparr>keywords' := lit ''stem''\<rparr>)) = []"
  by (simp add: findGrants_eq findGrants_try_eq api_eq env_of_def demo_backend_def reply_def
        acme_def initial_state_def request_defs Let_def after_def
        intake_ref_defined grant_list_defined js_or_def field_def)
     (simp add: three_grants_def)

text \<open>
  C3, amended. In the full client, when both calls succeed (each with a JSON value that is
  not \<open>null\<close>) and the search returns a list under \<open>top\<close>, or else under \<open>items\<close>, the
  grant list becomes exactly that list and the error string is empty. The count-bearing
  message belongs to the minimal client, whose search is a single call: when that call
  succeeds with a list of N items under \<open>results\<close>, the list is stored and the status is
  \<open>Found N item(s)\<close>.
\<close>

theorem C3_success_replaces_list:
  "(\<forall>r1 q r2 g xs.
      server ev (api_request ev (lit ''/questionnaire'') (questionnaire_body s)) = Resolved r1 \<and>
      ok r1 \<and> json r1 = Inr q \<and> q \<noteq> JNull \<and> q \<noteq> JUndefined \<and>
      server ev (api_request ev (lit ''/find-grants'') (find_grants_body s)) = Resolved r2 \<and>
      ok r2 \<and> json r2 = Inr g \<and>
      js_or (getp_opt g ''top'') (getp_opt g ''items'') = JArr xs \<longrightarrow>
        grants (after (findGrants ev s) s) = JArr xs \<and>
        error (after (findGrants ev s) s) = []) \<and>
   (\<forall>r d xs.
      server ev
        \<lparr> url = ENDPOINTS_shortlist ev, http_method = lit ''POST'', headers = json_headers,
          body = Some (JObj [(''organization'', JStr (str_or (org_v1 m) (lit ''Your Organization''))),
                             (''keywords'', JStr (str_or (kw m) (lit ''community'')))]) \<rparr> = Resolved r \<and>
      ok r \<and> json r = Inr d \<and> getp_opt d ''results'' = JArr xs \<longrightarrow>
        results (after_v1 (handleFind ev m) m) = JArr xs \<and>
        status_v1 (after_v1 (handleFind ev m) m) =
          lit ''Found '' @ show_nat (length xs) @ lit '' item(s)'')"
proof (intro conjI allI impI)
  fix r1 q r2 g xs
  assume a: "server ev (api_request ev (lit ''/questionnaire'') (questionnaire_body s)) = Resolved r1 \<and>
      ok r1 \<and> json r1 = Inr q \<and> q \<noteq> JNull \<and> q \<noteq> JUndefined \<and>
      server ev (api_request ev (lit ''/find-grants'') (find_grants_body s)) = Resolved r2 \<and>
      ok r2 \<and> json r2 = Inr g \<and>
      js_or (getp_opt g ''top'') (getp_opt g ''items'') = JArr xs"
  then have g: "g \<noteq> JNull" "g \<noteq> JUndefined"
    by (auto simp: js_or_def)
  from a have gl: "js_or (js_or (getp_opt g ''top'') (getp_opt g ''items'')) (JArr []) = JArr xs"
    by (simp add: js_or_def)
  from a g gl show "grants (after (findGrants ev s) s) = JArr xs"
    by (simp add: findGrants_eq findGrants_try_eq api_eq Let_def after_def
          intake_ref_defined grant_list_defined)
  from a g gl show "error (after (findGrants ev s) s) = []"
    by (simp add: findGrants_eq findGrants_try_eq api_eq Let_def after_def
          intake_ref_defined grant_list_defined)
next
  fix r d xs
  assume a: "server ev
        \<lparr> url = ENDPOINTS_shortlist ev, http_method = lit ''POST'', headers = json_headers,
          body = Some (JObj [(''organization'', JStr (str_or (org_v1 m) (lit ''Your Organization''))),
                             (''keywords'', JStr (str_or (kw m) (lit ''community'')))]) \<rparr> = Resolved r \<and>
      ok r \<and> json r = Inr d \<and> getp_opt d ''results'' = JArr xs"
  then have d: "d \<noteq> JNull" "d \<noteq> JUndefined"
    by auto
  have t: "handleFind_try ev m =
      ([Call \<lparr> url = ENDPOINTS_shortlist ev, http_method = lit ''POST'', headers = json_headers,
          body = Some (JObj [(''organization'', JStr (str_or (org_v1 m) (lit ''Your Organization''))),
                             (''keywords'', JStr (str_or (kw m) (lit ''community'')))]) \<rparr>,
        Write (SetResults (JArr xs)),
        Write (SetStatus (lit ''Found '' @ show_nat (length xs) @ lit '' item(s)''))], Inr ())"
    using a d
    by (simp add: handleFind_try_def fetcher_findGrants_eq getp_defined comp_defs
          found_message_array js_or_def)
  show "results (after_v1 (handleFind ev m) m) = JArr xs"
    by (simp add: handleFind_def t comp_defs after_v1_def)
  show "status_v1 (after_v1 (handleFind ev m) m) = lit ''Found '' @ show_nat (length xs) @ lit '' item(s)''"
    by (simp add: handleFind_def t comp_defs after_v1_def)
qed

text \<open>C3 at the backend that answers with three grants, in both clients.\<close>

theorem C3_witness:
  "grants (after (findGrants (env_of demo_backend) acme) acme) = JArr three_grants \<and>
   error (after (findGrants (env_of demo_backend) acme) acme) = [] \<and>
   results (after_v1 (handleFind (env_of demo_backend) acme_v1) acme_v1) = JArr three_grants \<and>
   status_v1 (after_v1 (handleFind (env_of demo_backend) acme_v1) acme_v1) = lit ''Found 3 item(s)''"
proof -
  have n: "lit ''Found '' @ show_nat (length three_grants) @ lit '' item(s)'' = lit ''Found 3 item(s)''"
    by (simp add: three_grants_def show_nat_lits)
  have a: "server (env_of demo_backend)
             (api_request (env_of demo_backend) (lit ''/questionnaire'') (questionnaire_body acme)) =
           Resolved \<lparr> status = 200, json = Inr (JObj [(''ok'', JBool True), (''results'', JArr three_grants)]) \<rparr>"
    by (simp add: env_of_def demo_backend_def reply_def request_defs)
  have b: "server (env_of demo_backend)
             (api_request (env_of demo_backend) (lit ''/find-grants'') (find_grants_body acme)) =
           Resolved \<lparr> status = 200, json = Inr (JObj [(''top'', JArr three_grants)]) \<rparr>"
    by (simp add: env_of_def demo_backend_def reply_def request_defs)
  have c: "server (env_of demo_backend)
        \<lparr> url = ENDPOINTS_shortlist (env_of demo_backend), http_method = lit ''POST'',
          headers = json_headers,
          body = Some (JObj [(''organization'', JStr (str_or (org_v1 acme_v1) (lit ''Your Organization''))),
                             (''keywords'', JStr (str_or (kw acme_v1) (lit ''community'')))]) \<rparr> =
           Resolved \<lparr> status = 200, json = Inr (JObj [(''ok'', JBool True), (''results'', JArr three_grants)]) \<rparr>"
    by (simp add: env_of_def demo_backend_def reply_def request_defs)
  from C3_success_replaces_list [where ev = "env_of demo_backend" and s = acme and m = acme_v1]
    a b c n show ?thesis
    by (simp add: ok_def js_or_def field_def)
qed

text \<open>
  C5. For every search that fails, at either step or on an unusable answer, the state
  afterwards has the empty grant list and no active draft. Both were cleared before the
  first call, a call was issued, and from that call on nothing writes the grant list or
  the draft.
\<close>

theorem C5_failed_search_clears:
  assumes "snd (findGrants_try ev s) = Inl e"
  shows "grants (after (findGrants ev s) s) = JArr [] \<and>
         draft (after (findGrants ev s) s) = JNull \<and>
         writes_before_calls (fst (findGrants ev s)) =
           [SetError [], SetDraft JNull, SetGrants (JArr []), SetLoading True] \<and>
         calls_of (fst (findGrants ev s)) \<noteq> [] \<and>
         grants_or_draft_writes (writes_after_first_call (fst (findGrants ev s))) = []"
  using assms
  by (auto simp: findGrants_eq findGrants_try_eq after_def writes_before_calls_def
        writes_after_first_call_def Let_def split: sum.splits)

text \<open>C5 at a state holding grants and a draft, with the search route down.\<close>

theorem C5_witness:
  "snd (findGrants_try (env_of search_down_backend) acme_with_draft) =
     Inl (Thrown ''Error'' (lit ''API /find-grants failed (502)'')) \<and>
   grants (after (findGrants (env_of search_down_backend) acme_with_draft) acme_with_draft) = JArr [] \<and>
   draft (after (findGrants (env_of search_down_backend) acme_with_draft) acme_with_draft) = JNull"
proof -
  have h: "snd (findGrants_try (env_of search_down_backend) acme_with_draft) =
             Inl (Thrown ''Error'' (lit ''API /find-grants failed (502)''))"
    by (simp add: findGrants_try_eq api_eq example_defs request_defs Let_def
          intake_ref_defined js_or_def field_def show_nat_lits)
  from C5_failed_search_clears [OF h] h show ?thesis by simp
qed

section \<open>The API client\<close>

text \<open>
  C4, as stated, gives every non-success status an error carrying the request path, and
  every non-JSON body a decode error. The call of fetcher.js to the questionnaire route
  fails on status 500 with the message \<open>Shortlist 500\<close>, which does not carry the path;
  and \<open>api\<close>, answered 500 with an HTML page, fails with its status error, not with the
  decoder's: the status is tested before the body is read.
\<close>

theorem C4_counterexample:
  "snd (fetcher_findGrants (env_of (\<lambda>rq. reply_html 500)) (JStr (lit ''Acme'')) (JStr (lit ''stem''))
          :: (mini_write, js) comp) = Inl (Thrown ''Error'' (lit ''Shortlist 500'')) \<and>
   \<not> sublist (lit ''/questionnaire'') (lit ''Shortlist 500'') \<and>
   snd (api (env_of (\<lambda>rq. reply_html 500)) (lit ''/draft'') JUndefined :: (app_write, js) comp) =
     Inl (Thrown ''Error'' (lit ''API /draft failed (500)'')) \<and>
   Thrown ''Error'' (lit ''API /draft failed (500)'') \<noteq> html_error"
proof -
  have "\<not> sublist (lit ''/questionnaire'') (lit ''Shortlist 500'')"
    by code_simp
  then show ?thesis
    by (simp add: fetcher_findGrants_eq api_eq env_of_def reply_html_def html_error_def ok_def
          show_nat_lits)
qed

text \<open>
  C4, amended. The client defines no error classes of its own. In \<open>api\<close>, a rejection of
  \<open>fetch\<close> is passed on unchanged; a response with a non-success status fails with an
  Error whose message is \<open>API <path> failed (<status>)\<close>, so it carries the path and the
  status; a response with a success status and a body that is not JSON fails with the
  rejection of the decoder, unchanged. In fetcher.js the error for a non-success status
  carries a fixed label and the status (\<open>Shortlist <status>\<close>), not the path.
\<close>

theorem C4_api_failures:
  "(\<forall>e. server ev (api_request ev path b) = Rejected e \<longrightarrow>
        snd (api ev path b :: (app_write, js) comp) = Inl e) \<and>
   (\<forall>r. server ev (api_request ev path b) = Resolved r \<and> \<not> ok r \<longrightarrow>
        snd (api ev path b :: (app_write, js) comp) =
          Inl (Thrown ''Error'' (lit ''API '' @ path @ lit '' failed ('' @ show_nat (status r) @ lit '')'')) \<and>
        sublist path (lit ''API '' @ path @ lit '' failed ('' @ show_nat (status r) @ lit '')'') \<and>
        sublist (show_nat (status r))
          (lit ''API '' @ path @ lit '' failed ('' @ show_nat (status r) @ lit '')'')) \<and>
   (\<forall>r e. server ev (api_request ev path b) = Resolved r \<and> ok r \<and> json r = Inl e \<longrightarrow>
        snd (api ev path b :: (app_write, js) comp) = Inl e) \<and>
   (\<forall>rq. rq = \<lparr> url = ENDPOINTS_shortlist ev, http_method = lit ''POST'', headers = json_headers,
                  body = Some (JObj [(''organization'', a), (''keywords'', k)]) \<rparr> \<longrightarrow>
      (\<forall>e. server ev rq = Rejected e \<longrightarrow>
           snd (fetcher_findGrants ev a k :: (mini_write, js) comp) = Inl e) \<and>
      (\<forall>r. server ev rq = Resolved r \<and> \<not> ok r \<longrightarrow>
           snd (fetcher_findGrants ev a k :: (mini_write, js) comp) =
             Inl (Thrown ''Error'' (lit ''Shortlist '' @ show_nat (status r)))) \<and>
      (\<forall>r e. server ev rq = Resolved r \<and> ok r \<and> json r = Inl e \<longrightarrow>
           snd (fetcher_findGrants ev a k :: (mini_write, js) comp) = Inl e))"
proof -
  have s1: "\<And>n. sublist path (lit ''API '' @ path @ lit '' failed ('' @ n @ lit '')'')"
    by (rule sublist_appendI)
  have s2: "\<And>n. sublist n (lit ''API '' @ path @ lit '' failed ('' @ n @ lit '')'')"
  proof -
    fix n :: jstring
    have "sublist n ((lit ''API '' @ path @ lit '' failed ('') @ n @ lit '')'')"
      by (rule sublist_appendI)
    then show "sublist n (lit ''API '' @ path @ lit '' failed ('' @ n @ lit '')'')"
      by simp
  qed
  show ?thesis
    using s1 s2 by (simp add: api_eq fetcher_findGrants_eq)
qed

text \<open>C4 at a transport failure, a 503, an HTML page with status 200, and a 503 in fetcher.js.\<close>

theorem C4_witness:
  "snd (api (env_of (\<lambda>rq. Rejected (Thrown ''TypeError'' (lit ''Failed to fetch'')))) (lit ''/draft'') JUndefined
          :: (app_write, js) comp) = Inl (Thrown ''TypeError'' (lit ''Failed to fetch'')) \<and>
   snd (api (env_of (\<lambda>rq. reply 503 JNull)) (lit ''/draft'') JUndefined :: (app_write, js) comp) =
     Inl (Thrown ''Error'' (lit ''API /draft failed (503)'')) \<and>
   snd (api (env_of (\<lambda>rq. reply_html 200)) (lit ''/draft'') JUndefined :: (app_write, js) comp) =
     Inl html_error \<and>
   snd (fetcher_findGrants (env_of (\<lambda>rq. reply 503 JNull)) (JStr (lit ''Acme'')) (JStr (lit ''stem''))
          :: (mini_write, js) comp) = Inl (Thrown ''Error'' (lit ''Shortlist 503''))"
proof -
  have n: "show_nat 503 = lit ''503''"
    by (simp add: show_nat_lits)
  from C4_api_failures [of "env_of (\<lambda>rq. Rejected (Thrown ''TypeError'' (lit ''Failed to fetch'')))"
         "(lit ''/draft'')" JUndefined "JStr (lit ''Acme'')" "JStr (lit ''stem'')"]
    C4_api_failures [of "env_of (\<lambda>rq. reply 503 JNull)" "(lit ''/draft'')" JUndefined
         "JStr (lit ''Acme'')" "JStr (lit ''stem'')"]
    C4_api_failures [of "env_of (\<lambda>rq. reply_html 200)" "(lit ''/draft'')" JUndefined
         "JStr (lit ''Acme'')" "JStr (lit ''stem'')"]
    n show ?thesis
    by (simp add: env_of_def reply_def reply_html_def ok_def)
qed

section \<open>Creating a draft\<close>

text \<open>
  C6, as stated, sets the error string to the failure's message. A rejection whose
  message is empty does not show the empty message: the handler falls back on its own
  text.
\<close>

theorem C6_counterexample:
  "snd (createDraft_try (env_of (\<lambda>rq. Rejected (Thrown ''TypeError'' []))) acme stem_fund) =
     Inl (Thrown ''TypeError'' []) \<and>
   error (after (createDraft (env_of (\<lambda>rq. Rejected (Thrown ''TypeError'' []))) acme stem_fund) acme)
     = lit ''Failed to create draft'' \<and>
   message (Thrown ''TypeError'' []) \<noteq> lit ''Failed to create draft''"
  by (simp add: createDraft_eq createDraft_try_eq api_eq draft_body_defined stem_fund_def
        env_of_def after_def str_or_def)

text \<open>
  C6, amended. For every \<open>createDraft\<close> that fails, the active draft in state is what it
  was before, and the error string is the failure's message, or \<open>Failed to create draft\<close>
  when that message is empty.
\<close>

theorem C6_failed_draft_keeps_draft:
  assumes "snd (createDraft_try ev s g) = Inl e"
  shows "draft (after (createDraft ev s g) s) = draft s \<and>
         error (after (createDraft ev s g) s) =
           (if message e = [] then (lit ''Failed to create draft'') else message e)"
  using assms
  by (auto simp: createDraft_eq after_def createDraft_try_eq str_or_def split: sum.splits)

text \<open>C6 at a state holding a draft, with the draft route answering 500.\<close>

theorem C6_witness:
  "snd (createDraft_try (env_of (\<lambda>rq. reply_html 500)) acme_with_draft stem_fund) =
     Inl (Thrown ''Error'' (lit ''API /draft failed (500)'')) \<and>
   draft (after (createDraft (env_of (\<lambda>rq. reply_html 500)) acme_with_draft stem_fund)
            acme_with_draft) = draft acme_with_draft \<and>
   error (after (createDraft (env_of (\<lambda>rq. reply_html 500)) acme_with_draft stem_fund)
            acme_with_draft) = lit ''API /draft failed (500)''"
proof -
  have h: "snd (createDraft_try (env_of (\<lambda>rq. reply_html 500)) acme_with_draft stem_fund) =
             Inl (Thrown ''Error'' (lit ''API /draft failed (500)''))"
    by (simp add: createDraft_try_eq api_eq draft_body_defined stem_fund_def env_of_def
          reply_html_def ok_def show_nat_lits)
  from C6_failed_draft_keeps_draft [OF h] h show ?thesis by simp
qed

text \<open>
  C7. For every grant \<open>g\<close> (any value but \<open>null\<close> and \<open>undefined\<close>), \<open>createDraft\<close> issues
  exactly one call, to the draft route, whatever the intake reference is; its body carries
  the intake reference as it stands (\<open>null\<close> included), the organization, and the grant's
  id, title, agency and url, the url replaced by \<open>https://example.com\<close> when the grant has
  none. When the call succeeds with a JSON value \<open>d\<close>, the stored draft has \<open>g\<close> itself as
  its grant, and as its id \<open>d.draft_id\<close>, or else \<open>d.id\<close>.
\<close>

theorem C7_create_draft_attaches_grant:
  assumes "g \<noteq> JNull" and "g \<noteq> JUndefined"
  shows "\<exists>b. b = JObj [(''intake_id'', intakeId s),
                        (''organization'', JStr (str_or (org s) (lit ''Your Organization''))),
                        (''grant'',
                         JObj [(''id'', getp_opt g ''id''), (''title'', getp_opt g ''title''),
                               (''agency'', getp_opt g ''agency''),
                               (''url'', js_or (getp_opt g ''url'') (JStr (lit ''https://example.com'')))])] \<and>
           calls_of (fst (createDraft ev s g)) = [api_request ev (lit ''/draft'') b] \<and>
           body (api_request ev (lit ''/draft'') b) = Some b \<and>
           (\<forall>r d. server ev (api_request ev (lit ''/draft'') b) = Resolved r \<and> ok r \<and>
                  json r = Inr d \<and> d \<noteq> JNull \<and> d \<noteq> JUndefined \<longrightarrow>
              draft (after (createDraft ev s g) s) =
                JObj [(''id'', js_or (getp_opt d ''draft_id'') (getp_opt d ''id'')),
                      (''preview'', js_or (getp_opt d ''preview'') (JStr [])),
                      (''grant'', g)] \<and>
              getp_opt (draft (after (createDraft ev s g) s)) ''grant'' = g)"
  using assms
  by (auto simp: createDraft_eq createDraft_try_eq draft_body_defined draft_object_defined
        api_eq after_def api_request_def field_def split: sum.splits fetch_outcome.splits)

text \<open>C7 for the STEM Fund grant with no intake reference.\<close>

theorem C7_witness:
  "intakeId acme = JNull \<and>
   map body (calls_of (fst (createDraft (env_of demo_backend) acme stem_fund))) =
     [Some (JObj [(''intake_id'', JNull), (''organization'', JStr (lit ''Acme'')),
                  (''grant'', JObj [(''id'', JStr (lit ''g1'')), (''title'', JStr (lit ''STEM Fund'')),
                                    (''agency'', JUndefined),
                                    (''url'', JStr (lit ''https://example.com''))])])] \<and>
   draft (after (createDraft (env_of demo_backend) acme stem_fund) acme) =
     JObj [(''id'', JStr (lit ''d-20240101-xyz'')), (''preview'', JStr []), (''grant'', stem_fund)] \<and>
   getp_opt (getp_opt (draft (after (createDraft (env_of demo_backend) acme stem_fund) acme))
               ''grant'') ''id'' = JStr (lit ''g1'')"
proof -
  have g: "stem_fund \<noteq> JNull" "stem_fund \<noteq> JUndefined"
    by (simp_all add: stem_fund_def)
  from C7_create_draft_attaches_grant [OF g, of acme "env_of demo_backend"]
  show ?thesis
    by (simp add: example_defs request_defs field_def js_or_def)
qed

section \<open>Marking as paid\<close>

text \<open>
  C8. Opening the payment window on a target with no id of its own and none in an
  embedded grant selects the identifier \<open>unknown\<close>, and Mark as Paid adds exactly it to
  the paid set. Over any sequence of user actions, whatever the backend answers, the paid
  set only grows: an identifier once in it stays in it.
\<close>

theorem C8_unknown_sentinel_and_paid_set_grows:
  "(t \<noteq> JNull \<and> t \<noteq> JUndefined \<and> \<not> truthy (getp_opt t ''id'') \<and>
    \<not> truthy (getp_opt (getp_opt t ''grant'') ''id'') \<longrightarrow>
      getp_opt (payFor (step ev (ClickPayment t) s)) ''id'' = JStr (lit ''unknown'') \<and>
      paidDraftIds (step ev' ClickMarkAsPaid (step ev (ClickPayment t) s)) =
        insert (JStr (lit ''unknown'')) (paidDraftIds s)) \<and>
   paidDraftIds s \<subseteq> paidDraftIds (session acts s)"
  by (auto simp: session_paid_mono step_def openPay_defined confirmPay_eq js_or_def field_def)

text \<open>C8 for a grant that has only a title, followed by a search, a draft and a cancel.\<close>

theorem C8_witness:
  "paidDraftIds (step (env_of demo_backend) ClickMarkAsPaid
      (step (env_of demo_backend) (ClickPayment (JObj [(''title'', JStr (lit ''Rural Health''))])) acme)) =
     {JStr (lit ''unknown'')} \<and>
   JStr (lit ''unknown'') \<in>
     paidDraftIds
       (session [(env_of demo_backend, ClickFindGrants),
                 (env_of demo_backend, ClickDraft stem_fund),
                 (env_of demo_backend, ClosePayment)]
          (step (env_of demo_backend) ClickMarkAsPaid
             (step (env_of demo_backend)
                (ClickPayment (JObj [(''title'', JStr (lit ''Rural Health''))])) acme)))"
proof -
  let ?t = "JObj [(''title'', JStr (lit ''Rural Health''))]"
  let ?s = "step (env_of demo_backend) ClickMarkAsPaid
              (step (env_of demo_backend) (ClickPayment ?t) acme)"
  have a: "paidDraftIds ?s = {JStr (lit ''unknown'')}"
    using C8_unknown_sentinel_and_paid_set_grows
            [of ?t "env_of demo_backend" acme "env_of demo_backend" "[]"]
    by (simp add: field_def acme_def initial_state_def)
  have "paidDraftIds ?s \<subseteq>
        paidDraftIds (session [(env_of demo_backend, ClickFindGrants),
                 (env_of demo_backend, ClickDraft stem_fund),
                 (env_of demo_backend, ClosePayment)] ?s)"
    using C8_unknown_sentinel_and_paid_set_grows
            [of JNull "env_of demo_backend" ?s "env_of demo_backend"
               "[(env_of demo_backend, ClickFindGrants),
                 (env_of demo_backend, ClickDraft stem_fund),
                 (env_of demo_backend, ClosePayment)]"]
    by blast
  with a show ?thesis by auto
qed

section \<open>Exporting the draft\<close>

text \<open>
  C9, as stated, builds the body from the organization name and the grant title, and the
  file name from the title and the draft id. With an empty organization, an empty title
  and an empty draft id, the body and the file name are built from the defaults
  \<open>Your Organization\<close>, \<open>Grant Opportunity\<close> and \<open>doc\<close> instead.
\<close>

theorem C9_counterexample:
  "exportPDF blank_with_untitled_draft =
     ([], Inr (Some \<lparr> pdf_body = JStr (placeholder (lit ''Your Organization'') (lit ''Grant Opportunity'')),
                      pdf_filename = lit ''GFUSA_Grant_Opportunity_doc.pdf'' \<rparr>)) \<and>
   org blank_with_untitled_draft = [] \<and>
   getp_opt (getp_opt (draft blank_with_untitled_draft) ''grant'') ''title'' = JStr [] \<and>
   getp_opt (draft blank_with_untitled_draft) ''id'' = JStr [] \<and>
   placeholder (lit ''Your Organization'') (lit ''Grant Opportunity'') \<noteq> placeholder [] [] \<and>
   lit ''GFUSA_Grant_Opportunity_doc.pdf'' \<noteq>
     lit ''GFUSA_'' @ collapse_ws (take 40 []) @ lit ''_'' @ take 8 [] @ lit ''.pdf''"
proof -
  have c: "collapse_ws (take 40 (lit ''Grant Opportunity'')) = lit ''Grant_Opportunity''"
    by (simp add: lit_def is_space_def)
  have p: "placeholder (lit ''Your Organization'') (lit ''Grant Opportunity'') \<noteq> placeholder [] []"
    by (simp add: placeholder_def lit_def)
  from c p show ?thesis
    by (simp add: exportPDF_def blank_with_untitled_draft_def initial_state_def comp_defs
          field_def js_or_def str_or_def take_lit)
qed

text \<open>
  C9, amended. Without an active draft \<open>exportPDF\<close> does nothing. With a draft whose preview
  is the empty string, where the title is the grant's title or \<open>Grant Opportunity\<close> when
  the grant has none, the organization is the one typed or \<open>Your Organization\<close> when none
  was, and the id is the draft's or \<open>doc\<close> when it has none (title and id being strings):
  the body is the placeholder letter, which contains the organization and the title
  verbatim, and the file name is \<open>GFUSA_\<close>, the first 40 characters of the title with each
  run of whitespace turned into one underscore, an underscore, the first 8 characters of
  the id, and \<open>.pdf\<close>.
\<close>

theorem C9_export_active_draft:
  "(\<not> truthy (draft s) \<longrightarrow> exportPDF s = ([], Inr None)) \<and>
   (\<forall>t i. truthy (draft s) \<and> getp_opt (draft s) ''preview'' = JStr [] \<and>
      js_or (getp_opt (getp_opt (draft s) ''grant'') ''title'') (JStr (lit ''Grant Opportunity'')) = JStr t \<and>
      js_or (getp_opt (draft s) ''id'') (JStr (lit ''doc'')) = JStr i \<longrightarrow>
        exportPDF s =
          ([], Inr (Some \<lparr> pdf_body = JStr (placeholder (str_or (org s) (lit ''Your Organization'')) t),
                           pdf_filename =
                             lit ''GFUSA_'' @ collapse_ws (take 40 t) @ lit ''_'' @ take 8 i @ lit ''.pdf'' \<rparr>)) \<and>
        sublist (str_or (org s) (lit ''Your Organization''))
          (placeholder (str_or (org s) (lit ''Your Organization'')) t) \<and>
        sublist t (placeholder (str_or (org s) (lit ''Your Organization'')) t))"
proof (intro conjI allI impI)
  assume "\<not> truthy (draft s)"
  then show "exportPDF s = ([], Inr None)"
    by (simp add: exportPDF_def ret_def)
next
  fix t i
  assume a: "truthy (draft s) \<and> getp_opt (draft s) ''preview'' = JStr [] \<and>
      js_or (getp_opt (getp_opt (draft s) ''grant'') ''title'') (JStr (lit ''Grant Opportunity'')) = JStr t \<and>
      js_or (getp_opt (draft s) ''id'') (JStr (lit ''doc'')) = JStr i"
  then have d: "draft s \<noteq> JNull" "draft s \<noteq> JUndefined"
    using truthy_defined by auto
  have go: "lit ''Grant Opportunity'' \<noteq> []" and dc: "lit ''doc'' \<noteq> []"
    by simp_all
  from a js_or_default_nonempty [OF go] have t: "t \<noteq> []"
    by blast
  from a js_or_default_nonempty [OF dc] have i: "i \<noteq> []"
    by blast
  from a d t i
  show "exportPDF s =
          ([], Inr (Some \<lparr> pdf_body = JStr (placeholder (str_or (org s) (lit ''Your Organization'')) t),
                           pdf_filename =
                             lit ''GFUSA_'' @ collapse_ws (take 40 t) @ lit ''_'' @ take 8 i @ lit ''.pdf'' \<rparr>))"
    by (simp add: exportPDF_def getp_defined comp_defs js_or_def [of "JStr t"])
next
  fix t i
  show "sublist (str_or (org s) (lit ''Your Organization''))
          (placeholder (str_or (org s) (lit ''Your Organization'')) t)"
    by (rule placeholder_has_org)
next
  fix t i
  show "sublist t (placeholder (str_or (org s) (lit ''Your Organization'')) t)"
    by (rule placeholder_has_title)
qed

text \<open>
  C9 for the STEM Fund draft of Acme, for a draft with a long title holding a run of
  spaces and a tab, for a title with a no-break space, and for a state without a draft.
\<close>

theorem C9_witness:
  "exportPDF acme_with_draft =
     ([], Inr (Some \<lparr> pdf_body = JStr (placeholder (lit ''Acme'') (lit ''STEM Fund'')),
                      pdf_filename = lit ''GFUSA_STEM_Fund_d-202401.pdf'' \<rparr>)) \<and>
   sublist (lit ''Acme'') (placeholder (lit ''Acme'') (lit ''STEM Fund'')) \<and>
   sublist (lit ''STEM Fund'') (placeholder (lit ''Acme'') (lit ''STEM Fund'')) \<and>
   exportPDF acme_with_long_title =
     ([], Inr (Some \<lparr> pdf_body =
                        JStr (placeholder (lit ''Acme'')
                                (lit ''Community   Health and'' @ [0x09] @
                                 lit ''Wellness Outreach Initiative 2025'')),
                      pdf_filename =
                        lit ''GFUSA_Community_Health_and_Wellness_Outreach_draft-01.pdf'' \<rparr>)) \<and>
   exportPDF nbsp_draft =
     ([], Inr (Some \<lparr> pdf_body = JStr (placeholder (lit ''Acme'') (lit ''A'' @ [0xA0] @ lit ''B'')),
                      pdf_filename = lit ''GFUSA_A_B_d1.pdf'' \<rparr>)) \<and>
   exportPDF acme = ([], Inr None)"
proof -
  have c1: "collapse_ws (take 40 (lit ''STEM Fund'')) = lit ''STEM_Fund''"
    by (simp add: lit_def is_space_def)
  have c2: "collapse_ws (take 40 (lit ''Community   Health and'' @ [0x09] @
                                 lit ''Wellness Outreach Initiative 2025'')) =
            lit ''Community_Health_and_Wellness_Outreach''"
    by (simp add: lit_def is_space_def)
  have c3: "collapse_ws (take 40 (lit ''A'' @ [0xA0] @ lit ''B'')) = lit ''A_B''"
    by (simp add: lit_def is_space_def)
  have i1: "take 8 (lit ''d-20240101-xyz'') = lit ''d-202401''"
    and i2: "take 8 (lit ''draft-0123456789'') = lit ''draft-01''"
    and i3: "take 8 (lit ''d1'') = lit ''d1''"
    by (simp_all add: take_lit)
  have n: "lit ''A'' @ [0xA0] @ lit ''B'' \<noteq> []"
          "lit ''Community   Health and'' @ [0x09] @ lit ''Wellness Outreach Initiative 2025'' \<noteq> []"
    by (simp_all add: lit_def)
  from C9_export_active_draft [of acme_with_draft] C9_export_active_draft [of acme]
    C9_export_active_draft [of acme_with_long_title] C9_export_active_draft [of nbsp_draft]
    c1 c2 c3 i1 i2 i3 n
  show ?thesis
    by (simp add: acme_with_draft_def acme_with_long_title_def nbsp_draft_def acme_def
          initial_state_def stem_fund_def field_def js_or_def str_or_def)
qed

section \<open>The loading flag\<close>

text \<open>
  C10. Every run of \<open>findGrants\<close> and of \<open>createDraft\<close> completes without an uncaught
  error, writes the loading flag exactly twice, first \<open>true\<close> and last \<open>false\<close>, and leaves
  it \<open>false\<close>, whatever the backend does: rejection, error status, a body that is not
  JSON, or an answer the handler cannot use.
\<close>

theorem C10_loading_flag_reset:
  "loading (after (findGrants ev s) s) = False \<and>
   snd (findGrants ev s) = Inr () \<and>
   loading_writes (writes_of (fst (findGrants ev s))) = [True, False] \<and>
   loading (after (createDraft ev s g) s) = False \<and>
   snd (createDraft ev s g) = Inr () \<and>
   loading_writes (writes_of (fst (createDraft ev s g))) = [True, False]"
  by (simp add: findGrants_eq findGrants_try_eq createDraft_eq createDraft_try_eq after_def
        Let_def split: sum.splits)

text \<open>C10 when the backend answers every call with an HTML page: the decoder's error is shown.\<close>

theorem C10_witness:
  "error (after (findGrants (env_of (\<lambda>rq. reply_html 200)) acme) acme) =
     (lit ''Unexpected token < in JSON at position 0'') \<and>
   loading (after (findGrants (env_of (\<lambda>rq. reply_html 200)) acme) acme) = False \<and>
   error (after (createDraft (env_of (\<lambda>rq. reply_html 200)) acme stem_fund) acme) =
     (lit ''Unexpected token < in JSON at position 0'') \<and>
   loading (after (createDraft (env_of (\<lambda>rq. reply_html 200)) acme stem_fund) acme) = False"
proof -
  have "error (after (findGrants (env_of (\<lambda>rq. reply_html 200)) acme) acme) =
     (lit ''Unexpected token < in JSON at position 0'')"
    by (simp add: findGrants_eq findGrants_try_eq api_eq after_def Let_def env_of_def
          reply_html_def html_error_def ok_def str_or_def)
  moreover have "error (after (createDraft (env_of (\<lambda>rq. reply_html 200)) acme stem_fund) acme) =
     (lit ''Unexpected token < in JSON at position 0'')"
    by (simp add: createDraft_eq createDraft_try_eq api_eq after_def env_of_def
          draft_body_defined stem_fund_def reply_html_def html_error_def ok_def str_or_def)
  ultimately show ?thesis
    using C10_loading_flag_reset [of "env_of (\<lambda>rq. reply_html 200)" acme stem_fund]
    by simp
qed

end
